theory Spec2Isabelle
  imports Main
begin

section \<open>The mypy driver of bazel-mypy-integration (mypy/main.py)\<close>

text \<open>
  The script replaces the two package-discovery functions of Python's \<open>site\<close> module by
  closures of its own, runs the type checker with its output captured in memory, puts the
  two functions back and exits with the checker's status. The model below follows the
  script line by line. What lies outside the script is a parameter: the file system, the
  environment, the parsed command line and the checker (\<open>mypy.main.main\<close>).
\<close>

subsection \<open>Values\<close>

text \<open>
  A function object that can be bound to \<open>site.getsitepackages\<close>: either a function from
  outside the script (the standard library's own), given by the list it returns, or the
  closure \<open>__bazel_override_getsitepackages__\<close> with its captured \<open>site_packages\<close>.
\<close>

datatype sitepackages_fun =
    External_getsitepackages "string list"
  | Bazel_override_getsitepackages "string list"

text \<open>The same for \<open>site.getusersitepackages\<close>, which returns one string.\<close>

datatype usersitepackages_fun =
    External_getusersitepackages string
  | Bazel_override_getusersitepackages

text \<open>The argument of \<open>SystemExit\<close>: \<open>None\<close>, an integer or any other object (by its text).\<close>

datatype exit_code = Code_None | Code_int int | Code_other string

datatype exn = SystemExit exit_code | AssertionError | Other_exception string

datatype outcome = Returned | Raised exn

text \<open>
  What the process does that can be seen from outside or that the claims count: text
  written to the real \<open>sys.stdout\<close> and \<open>sys.stderr\<close>, the call of the checker and the
  call of \<open>restore_original_sitepackages\<close>.
\<close>

datatype event =
    Stdout_write string
  | Stderr_write string
  | Checker_called
  | Restore_called

text \<open>
  The mutable state: the two attributes of the \<open>site\<close> module, the two module globals
  \<open>_original_getsitepackages\<close> and \<open>_original_getusersitepackages\<close>, and the log of
  events so far (oldest first).
\<close>

record py_state =
  site_getsitepackages :: sitepackages_fun
  site_getusersitepackages :: usersitepackages_fun
  original_getsitepackages :: sitepackages_fun
  original_getusersitepackages :: usersitepackages_fun
  events :: "event list"

text \<open>
  The file system as the script uses it: \<open>Path(p).read_text()\<close> gives the text of the
  file (\<open>Inr\<close>) or raises an exception, kept by its message (\<open>Inl\<close>); \<open>os.path.exists\<close>.
\<close>

record filesystem =
  read_text :: "string \<Rightarrow> string + string"
  path_exists :: "string \<Rightarrow> bool"

text \<open>
  One run of the checker \<open>main(script_path, stdout, stderr, args)\<close>: the chunks of text it
  writes, each to its \<open>stdout\<close> or to its \<open>stderr\<close> parameter, in order, and how it ends.
  The checker itself is a parameter: any function from the state it runs in and its
  arguments to such a run.
\<close>

datatype stream_param = Stdout_param | Stderr_param

record checker_run =
  writes :: "(stream_param \<times> string) list"
  result :: outcome

type_synonym checker = "py_state \<Rightarrow> string list \<Rightarrow> checker_run"

text \<open>The two \<open>StringIO\<close> objects of the script, named by the variables that hold them.\<close>

datatype buffer = Stdout_buf | Stderr_buf

subsection \<open>Library functions the script calls\<close>

abbreviation newline :: char where
  "newline \<equiv> CHR 0x0A"

abbreviation slash :: char where
  "slash \<equiv> CHR ''/''"

text \<open>\<open>s.split("\n")\<close>: the pieces between newlines; never empty, \<open>"".split("\n") = [""]\<close>.\<close>

fun split_newline :: "string \<Rightarrow> string list" where
  "split_newline [] = [[]]"
| "split_newline (c # cs) =
     (if c = newline then [] # split_newline cs
      else (case split_newline cs of
              [] \<Rightarrow> [[c]]
            | l # ls \<Rightarrow> (c # l) # ls))"

text \<open>\<open>"\n".join(ps)\<close>, the text of a manifest that lists \<open>ps\<close>.\<close>

fun join_newline :: "string list \<Rightarrow> string" where
  "join_newline [] = []"
| "join_newline [p] = p"
| "join_newline (p # q # ps) = p @ newline # join_newline (q # ps)"

text \<open>
  \<open>os.path.join(a, b)\<close> of \<open>posixpath\<close>: an absolute \<open>b\<close> replaces \<open>a\<close>; otherwise \<open>b\<close> is
  appended, after a separator unless \<open>a\<close> is empty or ends with one.
\<close>

definition startswith_sep :: "string \<Rightarrow> bool" where
  "startswith_sep b = (case b of [] \<Rightarrow> False | c # _ \<Rightarrow> c = slash)"

definition endswith_sep :: "string \<Rightarrow> bool" where
  "endswith_sep a = (a \<noteq> [] \<and> last a = slash)"

definition os_path_join :: "string \<Rightarrow> string \<Rightarrow> string" where
  "os_path_join a b =
     (if startswith_sep b then b
      else if a = [] \<or> endswith_sep a then a @ b
      else a @ slash # b)"

text \<open>\<open>print(x, file=sys.stdout)\<close> and \<open>print(x, file=sys.stderr)\<close> write \<open>x\<close> and a newline.\<close>

definition print_stdout :: "string \<Rightarrow> py_state \<Rightarrow> py_state" where
  "print_stdout x s = s\<lparr>events := events s @ [Stdout_write (x @ [newline])]\<rparr>"

definition print_stderr :: "string \<Rightarrow> py_state \<Rightarrow> py_state" where
  "print_stderr x s = s\<lparr>events := events s @ [Stderr_write (x @ [newline])]\<rparr>"

text \<open>What has reached the real streams, read off the log.\<close>

fun real_stdout :: "event list \<Rightarrow> string" where
  "real_stdout [] = []"
| "real_stdout (Stdout_write t # es) = t @ real_stdout es"
| "real_stdout (_ # es) = real_stdout es"

fun real_stderr :: "event list \<Rightarrow> string" where
  "real_stderr [] = []"
| "real_stderr (Stderr_write t # es) = t @ real_stderr es"
| "real_stderr (_ # es) = real_stderr es"

subsection \<open>Calling the discovery functions\<close>

text \<open>
  The override closure evaluates \<open>site_packages + _original_getsitepackages()\<close>, reading
  the module global when it is called. Were that global itself bound to the closure, the
  call would recurse without end (\<open>RecursionError\<close>): \<open>None\<close>.
\<close>

fun call_getsitepackages :: "py_state \<Rightarrow> sitepackages_fun \<Rightarrow> string list option" where
  "call_getsitepackages s (External_getsitepackages r) = Some r"
| "call_getsitepackages s (Bazel_override_getsitepackages site_packages) =
     (case original_getsitepackages s of
        External_getsitepackages r \<Rightarrow> Some (site_packages @ r)
      | Bazel_override_getsitepackages _ \<Rightarrow> None)"

fun call_getusersitepackages :: "usersitepackages_fun \<Rightarrow> string" where
  "call_getusersitepackages (External_getusersitepackages r) = r"
| "call_getusersitepackages Bazel_override_getusersitepackages = []"

text \<open>\<open>site.getsitepackages()\<close> and \<open>site.getusersitepackages()\<close> in a state.\<close>

definition getsitepackages :: "py_state \<Rightarrow> string list option" where
  "getsitepackages s = call_getsitepackages s (site_getsitepackages s)"

definition getusersitepackages :: "py_state \<Rightarrow> string" where
  "getusersitepackages s = call_getusersitepackages (site_getusersitepackages s)"

subsection \<open>The script\<close>

text \<open>
  Lines 10 and 11, run when the module is loaded: the two globals take the functions
  that the \<open>site\<close> module holds at that moment.
\<close>

definition module_load :: "sitepackages_fun \<Rightarrow> usersitepackages_fun \<Rightarrow> py_state" where
  "module_load gsp gusp =
     \<lparr>site_getsitepackages = gsp, site_getusersitepackages = gusp,
      original_getsitepackages = gsp, original_getusersitepackages = gusp,
      events = []\<rparr>"

definition manifest_error_message :: "string \<Rightarrow> string" where
  "manifest_error_message external_deps_manifest_path =
     ''Unexpected error while reading dependency manifest file at '' @
       [CHR 0x27] @ external_deps_manifest_path @ [CHR 0x27]"

text \<open>
  \<open>monkey_patch_sitepackages\<close>, lines 14 to 64. An unreadable manifest prints the message
  and the exception, separated by a space, with \<open>print\<close> (so to \<open>sys.stdout\<close>) and raises
  \<open>SystemExit(1)\<close>. A resolved path that does not exist fails the \<open>assert\<close>. Only after
  both checks are the two attributes of \<open>site\<close> assigned.
\<close>

definition monkey_patch_sitepackages ::
  "filesystem \<Rightarrow> string \<Rightarrow> string \<Rightarrow> py_state \<Rightarrow> outcome \<times> py_state" where
  "monkey_patch_sitepackages fs external_deps_manifest_path runfiles_root s =
     (case read_text fs external_deps_manifest_path of
        Inl e \<Rightarrow>
          (Raised (SystemExit (Code_int 1)),
           print_stdout (manifest_error_message external_deps_manifest_path @ '' '' @ e) s)
      | Inr text \<Rightarrow>
          (let external_deps_manifest = split_newline text;
               site_packages = map (os_path_join runfiles_root) external_deps_manifest
           in if \<not> list_all (path_exists fs) site_packages
              then (Raised AssertionError, s)
              else (Returned,
                    s\<lparr>site_getsitepackages := Bazel_override_getsitepackages site_packages,
                      site_getusersitepackages := Bazel_override_getusersitepackages\<rparr>)))"

text \<open>\<open>restore_original_sitepackages\<close>, lines 67 to 69; the call is logged.\<close>

definition restore_original_sitepackages :: "py_state \<Rightarrow> py_state" where
  "restore_original_sitepackages s =
     s\<lparr>site_getsitepackages := original_getsitepackages s,
       site_getusersitepackages := original_getusersitepackages s,
       events := events s @ [Restore_called]\<rparr>"

text \<open>
  Lines 77 to 79: \<open>os.environ.get('TEST_SRCDIR') or os.path.join(os.getcwd(), "external")\<close>.
  A variable that is unset or empty is falsy.
\<close>

definition get_runfiles_root :: "string option \<Rightarrow> string \<Rightarrow> string" where
  "get_runfiles_root test_srcdir cwd =
     (case test_srcdir of
        None \<Rightarrow> os_path_join cwd ''external''
      | Some v \<Rightarrow> if v \<noteq> [] then v else os_path_join cwd ''external'')"

text \<open>
  Writing the checker's chunks into the \<open>StringIO\<close> objects bound to its two stream
  parameters.
\<close>

fun write_chunks ::
  "(stream_param \<Rightarrow> buffer) \<Rightarrow> (stream_param \<times> string) list \<Rightarrow> (buffer \<Rightarrow> string) \<Rightarrow> buffer \<Rightarrow> string" where
  "write_chunks bound [] bufs = bufs"
| "write_chunks bound ((p, t) # ws) bufs =
     write_chunks bound ws (bufs(bound p := bufs (bound p) @ t))"

text \<open>
  Line 86 calls \<open>main(None, stderr, stderr, unknown)\<close>: both stream parameters of the
  checker are bound to the object in the variable \<open>stderr\<close>.
\<close>

definition main_streams :: "stream_param \<Rightarrow> buffer" where
  "main_streams p = (case p of Stdout_param \<Rightarrow> Stderr_buf | Stderr_param \<Rightarrow> Stderr_buf)"

text \<open>
  Lines 83 to 93, the \<open>try\<close> statement. Its value is the exception that leaves it
  (\<open>Inl\<close>) or the \<open>exit_status\<close> it has assigned (\<open>Inr\<close>). The handler of \<open>SystemExit\<close>
  prints both buffers; the \<open>finally\<close> clause runs last on each of the three paths.
\<close>

definition try_main :: "checker \<Rightarrow> string list \<Rightarrow> py_state \<Rightarrow> (exn + exit_code) \<times> py_state" where
  "try_main mypy_main unknown s =
     (let run = mypy_main s unknown;
          bufs = write_chunks main_streams (writes run) (\<lambda>_. []);
          s1 = s\<lparr>events := events s @ [Checker_called]\<rparr>
      in case result run of
           Returned \<Rightarrow> (Inr (Code_int 0), restore_original_sitepackages s1)
         | Raised (SystemExit code) \<Rightarrow>
             (let s2 = print_stdout (bufs Stdout_buf) s1;
                  s3 = print_stderr (bufs Stderr_buf) s2
              in (Inr code, restore_original_sitepackages s3))
         | Raised e \<Rightarrow> (Inl e, restore_original_sitepackages s1))"

text \<open>
  The whole script, from the loading of the module to the exception that ends the
  process: \<open>sys.exit(exit_status)\<close> on line 94, or whatever was raised before.
  \<open>external_deps\<close> and \<open>unknown\<close> are what \<open>parse_known_args\<close> has returned.
\<close>

definition main_script ::
  "filesystem \<Rightarrow> string option \<Rightarrow> string \<Rightarrow> string \<Rightarrow> string list \<Rightarrow> checker \<Rightarrow>
   sitepackages_fun \<Rightarrow> usersitepackages_fun \<Rightarrow> exn \<times> py_state" where
  "main_script fs test_srcdir cwd external_deps unknown mypy_main gsp gusp =
     (let s0 = module_load gsp gusp;
          runfiles_root = get_runfiles_root test_srcdir cwd
      in case monkey_patch_sitepackages fs external_deps runfiles_root s0 of
           (Raised e, s1) \<Rightarrow> (e, s1)
         | (Returned, s1) \<Rightarrow>
             (case try_main mypy_main unknown s1 of
                (Inl e, s2) \<Rightarrow> (e, s2)
              | (Inr exit_status, s2) \<Rightarrow> (SystemExit exit_status, s2)))"

subsection \<open>Example inputs\<close>

text \<open>
  A sandbox \<open>/sandbox\<close> with three dependency directories, two manifests that list
  existing directories, one that lists a directory that is gone, and no other file:
  reading any other path raises \<open>FileNotFoundError\<close>, whose text names the path.
\<close>

definition example_fs :: filesystem where
  "example_fs =
     \<lparr>read_text = (\<lambda>p.
        if p = ''deps.txt'' then Inr (''libs/foo'' @ [newline] @ ''libs/bar'')
        else if p = ''more.txt'' then Inr ''libs/baz''
        else if p = ''stale.txt'' then Inr (''libs/foo'' @ [newline] @ ''libs/gone'')
        else Inl (''[Errno 2] No such file or directory: '' @ [CHR 0x27] @ p @ [CHR 0x27])),
      path_exists = (\<lambda>p.
        p \<in> set [''/sandbox/libs/foo'', ''/sandbox/libs/bar'', ''/sandbox/libs/baz''])\<rparr>"

definition example_gsp :: sitepackages_fun where
  "example_gsp = External_getsitepackages [''/usr/lib/python3/site-packages'']"

definition example_gusp :: usersitepackages_fun where
  "example_gusp = External_getusersitepackages ''/home/u/.local/lib/python3/site-packages''"

text \<open>Four checkers: one that passes, one that reports an error with status 1, one that
  prints its usage and stops with status 0, one that fails with an internal error.\<close>

definition checker_passes :: checker where
  "checker_passes s args =
     \<lparr>writes = [(Stdout_param, ''Success: no issues found'' @ [newline])], result = Returned\<rparr>"

definition checker_reports :: checker where
  "checker_reports s args =
     \<lparr>writes = [(Stdout_param, ''a.py:1: error: bad'' @ [newline]),
                (Stderr_param, ''note'')],
      result = Raised (SystemExit (Code_int 1))\<rparr>"

definition checker_usage :: checker where
  "checker_usage s args =
     \<lparr>writes = [(Stdout_param, ''usage: mypy'')],
      result = Raised (SystemExit (Code_int 0))\<rparr>"

definition checker_crashes :: checker where
  "checker_crashes s args =
     \<lparr>writes = [(Stderr_param, ''Traceback'')],
      result = Raised (Other_exception ''KeyError'')\<rparr>"

text \<open>The state after loading the module and installing the override twice in a row,
  first from \<open>deps.txt\<close>, then from \<open>more.txt\<close>, with no restoration in between.\<close>

definition example_loaded :: py_state where
  "example_loaded = module_load example_gsp example_gusp"

definition example_installed_twice :: py_state where
  "example_installed_twice =
     snd (monkey_patch_sitepackages example_fs ''more.txt'' ''/sandbox''
       (snd (monkey_patch_sitepackages example_fs ''deps.txt'' ''/sandbox'' example_loaded)))"

text \<open>A whole run of the script in the example sandbox, with a given checker.\<close>

definition example_run :: "string \<Rightarrow> checker \<Rightarrow> exn \<times> py_state" where
  "example_run external_deps mypy_main =
     main_script example_fs (Some ''/sandbox'') ''/work'' external_deps [''a.py'']
       mypy_main example_gsp example_gusp"

text \<open>\<open>occurs_before a b es\<close>: some \<open>a\<close> in the log \<open>es\<close> is followed, later, by a \<open>b\<close>.\<close>

fun occurs_before :: "event \<Rightarrow> event \<Rightarrow> event list \<Rightarrow> bool" where
  "occurs_before a b [] = False"
| "occurs_before a b (e # es) = ((e = a \<and> b \<in> set es) \<or> occurs_before a b es)"

section \<open>Properties\<close>

subsection \<open>Library functions\<close>

lemma split_newline_not_Nil: "split_newline t \<noteq> []"
  by (induction t) (auto split: list.splits)

lemma split_newline_line: "newline \<notin> set p \<Longrightarrow> split_newline p = [p]"
  by (induction p) auto

lemma split_newline_append:
  "newline \<notin> set p \<Longrightarrow> split_newline (p @ newline # t) = p # split_newline t"
  by (induction p) auto

text \<open>A manifest written as \<open>"\n".join(ps)\<close> is read back as \<open>ps\<close>.\<close>

lemma split_join_newline:
  "ps \<noteq> [] \<Longrightarrow> \<forall>p\<in>set ps. newline \<notin> set p \<Longrightarrow> split_newline (join_newline ps) = ps"
  by (induction ps rule: join_newline.induct) (auto simp: split_newline_line split_newline_append)

lemma os_path_join_relative:
  "a \<noteq> [] \<Longrightarrow> \<not> endswith_sep a \<Longrightarrow> \<not> startswith_sep b \<Longrightarrow> os_path_join a b = a @ slash # b"
  by (simp add: os_path_join_def)

text \<open>With both parameters bound to \<open>stderr\<close>, that buffer receives every chunk, in the
  order written, and \<open>stdout\<close> receives none.\<close>

lemma write_chunks_main_stderr:
  "write_chunks main_streams ws bufs Stderr_buf = bufs Stderr_buf @ concat (map snd ws)"
  by (induction ws arbitrary: bufs) (auto simp: main_streams_def split: stream_param.splits)

lemma write_chunks_main_stdout:
  "write_chunks main_streams ws bufs Stdout_buf = bufs Stdout_buf"
  by (induction ws arbitrary: bufs) (auto simp: main_streams_def split: stream_param.splits)

subsection \<open>Installing the override\<close>

lemma monkey_patch_ok:
  assumes "read_text fs path = Inr text"
    and "list_all (path_exists fs) (map (os_path_join R) (split_newline text))"
  shows "monkey_patch_sitepackages fs path R s =
     (Returned, s\<lparr>site_getsitepackages :=
                    Bazel_override_getsitepackages (map (os_path_join R) (split_newline text)),
                  site_getusersitepackages := Bazel_override_getusersitepackages\<rparr>)"
  using assms by (simp add: monkey_patch_sitepackages_def)

lemma monkey_patch_Returned:
  assumes "monkey_patch_sitepackages fs path R s = (Returned, s')"
  shows "\<exists>site_packages. s' = s\<lparr>site_getsitepackages := Bazel_override_getsitepackages site_packages,
                  site_getusersitepackages := Bazel_override_getusersitepackages\<rparr>"
  using assms by (auto simp: monkey_patch_sitepackages_def Let_def split: sum.splits if_splits)

lemma example_deps_patched:
  "monkey_patch_sitepackages example_fs ''deps.txt'' ''/sandbox'' s =
     (Returned, s\<lparr>site_getsitepackages :=
                    Bazel_override_getsitepackages [''/sandbox/libs/foo'', ''/sandbox/libs/bar''],
                  site_getusersitepackages := Bazel_override_getusersitepackages\<rparr>)"
  by (simp add: monkey_patch_sitepackages_def example_fs_def os_path_join_def
      startswith_sep_def endswith_sep_def)

lemma example_more_patched:
  "monkey_patch_sitepackages example_fs ''more.txt'' ''/sandbox'' s =
     (Returned, s\<lparr>site_getsitepackages :=
                    Bazel_override_getsitepackages [''/sandbox/libs/baz''],
                  site_getusersitepackages := Bazel_override_getusersitepackages\<rparr>)"
  by (simp add: monkey_patch_sitepackages_def example_fs_def os_path_join_def
      startswith_sep_def endswith_sep_def)

lemma example_root: "get_runfiles_root (Some ''/sandbox'') ''/work'' = ''/sandbox''"
  by (simp add: get_runfiles_root_def)

subsection \<open>The three paths through the \<open>try\<close> statement\<close>

lemma try_main_Returned:
  "result (mypy_main s unknown) = Returned \<Longrightarrow>
   try_main mypy_main unknown s =
     (Inr (Code_int 0),
      s\<lparr>site_getsitepackages := original_getsitepackages s,
        site_getusersitepackages := original_getusersitepackages s,
        events := events s @ [Checker_called, Restore_called]\<rparr>)"
  by (simp add: try_main_def restore_original_sitepackages_def)

lemma try_main_SystemExit:
  "result (mypy_main s unknown) = Raised (SystemExit code) \<Longrightarrow>
   try_main mypy_main unknown s =
     (Inr code,
      s\<lparr>site_getsitepackages := original_getsitepackages s,
        site_getusersitepackages := original_getusersitepackages s,
        events := events s @
          [Checker_called, Stdout_write [newline],
           Stderr_write (concat (map snd (writes (mypy_main s unknown))) @ [newline]),
           Restore_called]\<rparr>)"
  by (simp add: try_main_def restore_original_sitepackages_def print_stdout_def print_stderr_def
      write_chunks_main_stderr write_chunks_main_stdout)

lemma try_main_other:
  "result (mypy_main s unknown) = Raised e \<Longrightarrow> \<forall>code. e \<noteq> SystemExit code \<Longrightarrow>
   try_main mypy_main unknown s =
     (Inl e,
      s\<lparr>site_getsitepackages := original_getsitepackages s,
        site_getusersitepackages := original_getusersitepackages s,
        events := events s @ [Checker_called, Restore_called]\<rparr>)"
  by (cases e) (simp_all add: try_main_def restore_original_sitepackages_def)


subsection \<open>The script as a whole\<close>

lemma main_script_patched:
  assumes "monkey_patch_sitepackages fs external_deps (get_runfiles_root test_srcdir cwd)
             (module_load gsp gusp) = (Returned, s1)"
  shows "main_script fs test_srcdir cwd external_deps unknown mypy_main gsp gusp =
           (case try_main mypy_main unknown s1 of
              (Inl e, s2) \<Rightarrow> (e, s2)
            | (Inr exit_status, s2) \<Rightarrow> (SystemExit exit_status, s2))"
  using assms by (simp add: main_script_def)

lemma patched_events:
  assumes "monkey_patch_sitepackages fs path R s = (Returned, s1)"
  shows "events s1 = events s"
  using monkey_patch_Returned [OF assms] by auto

lemma main_script_Returned:
  assumes "monkey_patch_sitepackages fs external_deps (get_runfiles_root test_srcdir cwd)
             (module_load gsp gusp) = (Returned, s1)"
    and "result (mypy_main s1 unknown) = Returned"
  shows "main_script fs test_srcdir cwd external_deps unknown mypy_main gsp gusp =
           (SystemExit (Code_int 0),
            (module_load gsp gusp)\<lparr>events := [Checker_called, Restore_called]\<rparr>)"
proof -
  from monkey_patch_Returned [OF assms(1)] obtain sp where
    s1: "s1 = (module_load gsp gusp)\<lparr>site_getsitepackages := Bazel_override_getsitepackages sp,
                  site_getusersitepackages := Bazel_override_getusersitepackages\<rparr>"
    by blast
  have "try_main mypy_main unknown s1 =
     (Inr (Code_int 0), (module_load gsp gusp)\<lparr>events := [Checker_called, Restore_called]\<rparr>)"
    using try_main_Returned [of mypy_main s1 unknown, OF assms(2)]
    by (simp add: s1 module_load_def)
  then show ?thesis
    by (simp add: main_script_patched [OF assms(1)])
qed

lemma main_script_SystemExit:
  assumes "monkey_patch_sitepackages fs external_deps (get_runfiles_root test_srcdir cwd)
             (module_load gsp gusp) = (Returned, s1)"
    and "result (mypy_main s1 unknown) = Raised (SystemExit code)"
  shows "main_script fs test_srcdir cwd external_deps unknown mypy_main gsp gusp =
           (SystemExit code,
            (module_load gsp gusp)\<lparr>events :=
               [Checker_called, Stdout_write [newline],
                Stderr_write (concat (map snd (writes (mypy_main s1 unknown))) @ [newline]),
                Restore_called]\<rparr>)"
proof -
  from monkey_patch_Returned [OF assms(1)] obtain sp where
    s1: "s1 = (module_load gsp gusp)\<lparr>site_getsitepackages := Bazel_override_getsitepackages sp,
                  site_getusersitepackages := Bazel_override_getusersitepackages\<rparr>"
    by blast
  have "try_main mypy_main unknown s1 =
     (Inr code, (module_load gsp gusp)\<lparr>events :=
               [Checker_called, Stdout_write [newline],
                Stderr_write (concat (map snd (writes (mypy_main s1 unknown))) @ [newline]),
                Restore_called]\<rparr>)"
    using try_main_SystemExit [of mypy_main s1 unknown code, OF assms(2)]
    by (simp add: s1 module_load_def)
  then show ?thesis
    by (simp add: main_script_patched [OF assms(1)])
qed

lemma example_run_patched:
  "monkey_patch_sitepackages example_fs ''deps.txt''
     (get_runfiles_root (Some ''/sandbox'') ''/work'') (module_load example_gsp example_gusp) =
   (Returned, (module_load example_gsp example_gusp)\<lparr>site_getsitepackages :=
                    Bazel_override_getsitepackages [''/sandbox/libs/foo'', ''/sandbox/libs/bar''],
                  site_getusersitepackages := Bazel_override_getusersitepackages\<rparr>)"
  by (simp only: example_root example_deps_patched)

lemma main_script_state:
  assumes "monkey_patch_sitepackages fs external_deps (get_runfiles_root test_srcdir cwd)
             (module_load gsp gusp) = (Returned, s1)"
  shows "snd (main_script fs test_srcdir cwd external_deps unknown mypy_main gsp gusp) =
           snd (try_main mypy_main unknown s1)"
  by (simp add: main_script_patched [OF assms] split: prod.splits sum.splits)

lemma patched_originals:
  assumes "monkey_patch_sitepackages fs path R s = (Returned, s1)"
  shows "original_getsitepackages s1 = original_getsitepackages s"
    and "original_getusersitepackages s1 = original_getusersitepackages s"
  using monkey_patch_Returned [OF assms] by auto

lemma try_main_restores:
  "count_list (events (snd (try_main mypy_main unknown s))) Restore_called
     = count_list (events s) Restore_called + 1
   \<and> last (events (snd (try_main mypy_main unknown s))) = Restore_called
   \<and> site_getsitepackages (snd (try_main mypy_main unknown s)) = original_getsitepackages s
   \<and> site_getusersitepackages (snd (try_main mypy_main unknown s)) = original_getusersitepackages s"
proof (cases "result (mypy_main s unknown)")
  case Returned
  from try_main_Returned [of mypy_main s unknown, OF this] show ?thesis by simp
next
  case (Raised e)
  show ?thesis
  proof (cases e)
    case (SystemExit code)
    with Raised have "result (mypy_main s unknown) = Raised (SystemExit code)" by simp
    from try_main_SystemExit [of mypy_main s unknown code, OF this] show ?thesis by simp
  next
    case AssertionError
    with Raised try_main_other [of mypy_main s unknown e] show ?thesis by simp
  next
    case (Other_exception x)
    with Raised try_main_other [of mypy_main s unknown e] show ?thesis by simp
  qed
qed

section \<open>The claims\<close>

subsection \<open>C1: the primary result under the override\<close>

text \<open>
  C1. For every sandbox root \<open>R\<close> and every manifest that lists the entries \<open>ps\<close>, all
  of which exist when joined to \<open>R\<close>, installing the override in the freshly loaded
  module succeeds, and \<open>site.getsitepackages()\<close> then returns the joined paths, in
  manifest order, followed by what it returned before the override (\<open>sp\<close>). When \<open>R\<close>
  is not empty and does not end with a separator and the entries are relative, the
  joined path of \<open>p\<close> is literally \<open>R/p\<close>.
\<close>

theorem override_primary_result:
  assumes "read_text fs path = Inr (join_newline ps)"
    and "ps \<noteq> []"
    and "\<forall>p\<in>set ps. newline \<notin> set p"
    and "\<forall>p\<in>set ps. path_exists fs (os_path_join R p)"
  shows "\<exists>s'. monkey_patch_sitepackages fs path R (module_load (External_getsitepackages sp) gusp)
              = (Returned, s')
           \<and> getsitepackages (module_load (External_getsitepackages sp) gusp) = Some sp
           \<and> getsitepackages s' = Some (map (os_path_join R) ps @ sp)
           \<and> (R \<noteq> [] \<and> \<not> endswith_sep R \<and> (\<forall>p\<in>set ps. \<not> startswith_sep p)
                \<longrightarrow> getsitepackages s' = Some (map (\<lambda>p. R @ slash # p) ps @ sp))"
proof -
  let ?s0 = "module_load (External_getsitepackages sp) gusp"
  have split: "split_newline (join_newline ps) = ps"
    using assms(2,3) by (rule split_join_newline)
  have "list_all (path_exists fs) (map (os_path_join R) (split_newline (join_newline ps)))"
    using assms(4) by (simp add: split list_all_iff)
  from monkey_patch_ok [OF assms(1) this, of ?s0]
  have patched: "monkey_patch_sitepackages fs path R ?s0 =
     (Returned, ?s0\<lparr>site_getsitepackages := Bazel_override_getsitepackages (map (os_path_join R) ps),
                  site_getusersitepackages := Bazel_override_getusersitepackages\<rparr>)"
    by (simp add: split)
  have lit: "map (os_path_join R) ps = map (\<lambda>p. R @ slash # p) ps"
    if "R \<noteq> []" "\<not> endswith_sep R" "\<forall>p\<in>set ps. \<not> startswith_sep p"
    using that by (simp add: os_path_join_relative)
  show ?thesis
    using patched lit by (auto simp: getsitepackages_def module_load_def)
qed

theorem override_primary_result_witness:
  "getsitepackages (snd (monkey_patch_sitepackages example_fs ''deps.txt'' ''/sandbox''
       (module_load (External_getsitepackages [''/usr/lib/python3/site-packages'']) example_gusp)))
     = Some [''/sandbox/libs/foo'', ''/sandbox/libs/bar'', ''/usr/lib/python3/site-packages'']"
proof -
  have h1: "read_text example_fs ''deps.txt'' = Inr (join_newline [''libs/foo'', ''libs/bar''])"
    by (simp add: example_fs_def)
  have h2: "[''libs/foo'', ''libs/bar''] \<noteq> []"
    by simp
  have h3: "\<forall>p\<in>set [''libs/foo'', ''libs/bar'']. newline \<notin> set p"
    by simp
  have h4: "\<forall>p\<in>set [''libs/foo'', ''libs/bar'']. path_exists example_fs (os_path_join ''/sandbox'' p)"
    by (simp add: example_fs_def os_path_join_def startswith_sep_def endswith_sep_def)
  from override_primary_result [OF h1 h2 h3 h4,
      of "[''/usr/lib/python3/site-packages'']" example_gusp]
  show ?thesis
    by (auto simp: os_path_join_def startswith_sep_def endswith_sep_def)
qed

subsection \<open>C2: restoration on every exit path\<close>

text \<open>
  C2. Whatever the checker does (return, raise \<open>SystemExit\<close>, raise anything else), the
  \<open>try\<close> statement around it calls \<open>restore_original_sitepackages\<close> exactly once, as
  the last thing before control leaves it, and both attributes of \<open>site\<close> then hold the
  captured originals again. For the script as a whole: once the override is installed,
  the run ends with exactly one restoration in its log and with the two functions that
  \<open>site\<close> held when the module was loaded.
\<close>

theorem restore_on_every_exit_path:
  "count_list (events (snd (try_main mypy_main unknown s))) Restore_called
     = count_list (events s) Restore_called + 1
   \<and> last (events (snd (try_main mypy_main unknown s))) = Restore_called
   \<and> site_getsitepackages (snd (try_main mypy_main unknown s)) = original_getsitepackages s
   \<and> site_getusersitepackages (snd (try_main mypy_main unknown s)) = original_getusersitepackages s
   \<and> (monkey_patch_sitepackages fs external_deps (get_runfiles_root test_srcdir cwd)
             (module_load gsp gusp) = (Returned, s) \<longrightarrow>
        count_list (events (snd
          (main_script fs test_srcdir cwd external_deps unknown mypy_main gsp gusp))) Restore_called = 1
      \<and> site_getsitepackages (snd
          (main_script fs test_srcdir cwd external_deps unknown mypy_main gsp gusp)) = gsp
      \<and> site_getusersitepackages (snd
          (main_script fs test_srcdir cwd external_deps unknown mypy_main gsp gusp)) = gusp)"
proof -
  note r = try_main_restores [of mypy_main unknown s]
  have "count_list (events (snd
          (main_script fs test_srcdir cwd external_deps unknown mypy_main gsp gusp))) Restore_called = 1
      \<and> site_getsitepackages (snd
          (main_script fs test_srcdir cwd external_deps unknown mypy_main gsp gusp)) = gsp
      \<and> site_getusersitepackages (snd
          (main_script fs test_srcdir cwd external_deps unknown mypy_main gsp gusp)) = gusp"
    if p: "monkey_patch_sitepackages fs external_deps (get_runfiles_root test_srcdir cwd)
             (module_load gsp gusp) = (Returned, s)"
  proof -
    have "events s = []" "original_getsitepackages s = gsp" "original_getusersitepackages s = gusp"
      using patched_events [OF p] patched_originals [OF p] by (simp_all add: module_load_def)
    with r show ?thesis
      by (simp add: main_script_state [OF p])
  qed
  with r show ?thesis
    by blast
qed

theorem restore_on_every_exit_path_witness:
  "count_list (events (snd (example_run ''deps.txt'' checker_crashes))) Restore_called = 1
   \<and> site_getsitepackages (snd (example_run ''deps.txt'' checker_crashes)) = example_gsp
   \<and> site_getusersitepackages (snd (example_run ''deps.txt'' checker_crashes)) = example_gusp"
  using restore_on_every_exit_path [where mypy_main = checker_crashes and unknown = "[''a.py'']"
      and fs = example_fs and external_deps = "''deps.txt''" and test_srcdir = "Some ''/sandbox''"
      and cwd = "''/work''" and gsp = example_gsp and gusp = example_gusp
      and s = "(module_load example_gsp example_gusp)\<lparr>site_getsitepackages :=
                    Bazel_override_getsitepackages [''/sandbox/libs/foo'', ''/sandbox/libs/bar''],
                  site_getusersitepackages := Bazel_override_getusersitepackages\<rparr>"]
    example_run_patched
  unfolding example_run_def
  by blast

subsection \<open>C3: silence on status zero\<close>

text \<open>
  C3, as stated, fails: a checker that stops with \<open>SystemExit(0)\<close> after writing its
  usage text makes the script exit with status 0, and yet a newline reaches the real
  standard output and the captured text the real standard error.
\<close>

theorem silent_success_counterexample:
  "fst (example_run ''deps.txt'' checker_usage) = SystemExit (Code_int 0)
   \<and> real_stdout (events (snd (example_run ''deps.txt'' checker_usage))) = [newline]
   \<and> real_stderr (events (snd (example_run ''deps.txt'' checker_usage))) = ''usage: mypy'' @ [newline]"
proof -
  have "result (checker_usage s [''a.py'']) = Raised (SystemExit (Code_int 0))" for s
    by (simp add: checker_usage_def)
  from main_script_SystemExit [where mypy_main = checker_usage and unknown = "[''a.py'']",
      OF example_run_patched this]
  show ?thesis
    by (simp add: example_run_def checker_usage_def)
qed

text \<open>
  C3, amended. When the override has been installed and the checker returns without
  raising, the script ends with \<open>sys.exit(0)\<close> and nothing has been written to the real
  standard output or standard error.
\<close>

theorem silent_when_checker_returns:
  assumes "monkey_patch_sitepackages fs external_deps (get_runfiles_root test_srcdir cwd)
             (module_load gsp gusp) = (Returned, s1)"
    and "result (mypy_main s1 unknown) = Returned"
  shows "fst (main_script fs test_srcdir cwd external_deps unknown mypy_main gsp gusp)
           = SystemExit (Code_int 0)
     \<and> real_stdout (events (snd
          (main_script fs test_srcdir cwd external_deps unknown mypy_main gsp gusp))) = []
     \<and> real_stderr (events (snd
          (main_script fs test_srcdir cwd external_deps unknown mypy_main gsp gusp))) = []"
  using main_script_Returned [where mypy_main = mypy_main and unknown = unknown, OF assms]
  by simp

theorem silent_when_checker_returns_witness:
  "fst (example_run ''deps.txt'' checker_passes) = SystemExit (Code_int 0)
   \<and> real_stdout (events (snd (example_run ''deps.txt'' checker_passes))) = []
   \<and> real_stderr (events (snd (example_run ''deps.txt'' checker_passes))) = []"
proof -
  have "result (checker_passes s [''a.py'']) = Returned" for s
    by (simp add: checker_passes_def)
  from silent_when_checker_returns [where mypy_main = checker_passes and unknown = "[''a.py'']",
      OF example_run_patched this]
  show ?thesis
    by (simp add: example_run_def)
qed

subsection \<open>C4: what is emitted on failure\<close>

text \<open>
  C4, as stated, fails in its second half: when the checker reports an error with status
  1, the captured diagnostics reach the real standard error, but the real standard output
  receives a single newline, not a copy of them. The script prints the \<open>StringIO\<close> held
  in \<open>stdout\<close>, to which the checker was never given access.
\<close>

theorem stdout_duplicate_counterexample:
  "fst (example_run ''deps.txt'' checker_reports) = SystemExit (Code_int 1)
   \<and> real_stderr (events (snd (example_run ''deps.txt'' checker_reports)))
        = ''a.py:1: error: bad'' @ [newline] @ ''note'' @ [newline]
   \<and> real_stdout (events (snd (example_run ''deps.txt'' checker_reports))) = [newline]
   \<and> real_stdout (events (snd (example_run ''deps.txt'' checker_reports)))
        \<noteq> real_stderr (events (snd (example_run ''deps.txt'' checker_reports)))"
proof -
  have "result (checker_reports s [''a.py'']) = Raised (SystemExit (Code_int 1))" for s
    by (simp add: checker_reports_def)
  from main_script_SystemExit [where mypy_main = checker_reports and unknown = "[''a.py'']",
      OF example_run_patched this]
  show ?thesis
    by (simp add: example_run_def checker_reports_def)
qed

text \<open>
  C4, amended. When the override has been installed and the checker raises \<open>SystemExit\<close>
  (every non-zero status of the checker arrives so), the script exits with the code
  raised, the real standard error has received everything the checker wrote to either of
  its streams, in order, followed by a newline, and the real standard output has received
  one newline and nothing else.
\<close>

theorem failure_output:
  assumes "monkey_patch_sitepackages fs external_deps (get_runfiles_root test_srcdir cwd)
             (module_load gsp gusp) = (Returned, s1)"
    and "result (mypy_main s1 unknown) = Raised (SystemExit code)"
  shows "fst (main_script fs test_srcdir cwd external_deps unknown mypy_main gsp gusp)
           = SystemExit code
     \<and> real_stderr (events (snd
          (main_script fs test_srcdir cwd external_deps unknown mypy_main gsp gusp)))
         = concat (map snd (writes (mypy_main s1 unknown))) @ [newline]
     \<and> real_stdout (events (snd
          (main_script fs test_srcdir cwd external_deps unknown mypy_main gsp gusp)))
         = [newline]"
  using main_script_SystemExit [where mypy_main = mypy_main and unknown = unknown, OF assms]
  by simp

theorem failure_output_witness:
  "fst (example_run ''deps.txt'' checker_reports) = SystemExit (Code_int 1)
   \<and> real_stderr (events (snd (example_run ''deps.txt'' checker_reports)))
        = ''a.py:1: error: bad'' @ [newline] @ ''note'' @ [newline]
   \<and> real_stdout (events (snd (example_run ''deps.txt'' checker_reports))) = [newline]"
proof -
  have "result (checker_reports s [''a.py'']) = Raised (SystemExit (Code_int 1))" for s
    by (simp add: checker_reports_def)
  from failure_output [where mypy_main = checker_reports and unknown = "[''a.py'']",
      OF example_run_patched this]
  show ?thesis
    by (simp add: example_run_def checker_reports_def)
qed

subsection \<open>C5: the user-scope result under the override\<close>

text \<open>
  C5. Whenever \<open>monkey_patch_sitepackages\<close> returns, from whatever state and so
  whatever the previous \<open>site.getusersitepackages\<close> returned, that attribute is bound
  to the override closure and calling it gives the empty string.
\<close>

theorem user_sitepackages_empty:
  assumes "monkey_patch_sitepackages fs path R s = (Returned, s')"
  shows "site_getusersitepackages s' = Bazel_override_getusersitepackages
     \<and> getusersitepackages s' = []"
  using monkey_patch_Returned [OF assms] by (auto simp: getusersitepackages_def)

theorem user_sitepackages_empty_witness:
  "getusersitepackages example_loaded = ''/home/u/.local/lib/python3/site-packages''
   \<and> getusersitepackages
        (snd (monkey_patch_sitepackages example_fs ''deps.txt'' ''/sandbox'' example_loaded)) = []"
proof -
  have "getusersitepackages example_loaded = ''/home/u/.local/lib/python3/site-packages''"
    by (simp add: getusersitepackages_def example_loaded_def module_load_def example_gusp_def)
  moreover from user_sitepackages_empty [OF example_deps_patched [of example_loaded]]
  have "getusersitepackages
        (snd (monkey_patch_sitepackages example_fs ''deps.txt'' ''/sandbox'' example_loaded)) = []"
    by (simp add: example_deps_patched)
  ultimately show ?thesis by simp
qed

subsection \<open>C6: restoration and its repetition\<close>

text \<open>
  C6. After \<open>restore_original_sitepackages\<close> both attributes of \<open>site\<close> equal the
  captured originals, which the call leaves as they were; a second call changes nothing
  but the log that records it. If the state came from installing the override in the
  freshly loaded module, the restored functions are the ones \<open>site\<close> held before the
  installation, after one call and after two.
\<close>

theorem restore_idempotent:
  "site_getsitepackages (restore_original_sitepackages s) = original_getsitepackages s
   \<and> site_getusersitepackages (restore_original_sitepackages s) = original_getusersitepackages s
   \<and> original_getsitepackages (restore_original_sitepackages s) = original_getsitepackages s
   \<and> original_getusersitepackages (restore_original_sitepackages s) = original_getusersitepackages s
   \<and> restore_original_sitepackages (restore_original_sitepackages s)
       = (restore_original_sitepackages s)
           \<lparr>events := events (restore_original_sitepackages s) @ [Restore_called]\<rparr>
   \<and> (monkey_patch_sitepackages fs path R (module_load gsp gusp) = (Returned, s) \<longrightarrow>
        site_getsitepackages (restore_original_sitepackages s) = gsp
      \<and> site_getusersitepackages (restore_original_sitepackages s) = gusp
      \<and> site_getsitepackages (restore_original_sitepackages (restore_original_sitepackages s)) = gsp
      \<and> site_getusersitepackages (restore_original_sitepackages (restore_original_sitepackages s)) = gusp)"
proof -
  have "original_getsitepackages s = gsp \<and> original_getusersitepackages s = gusp"
    if "monkey_patch_sitepackages fs path R (module_load gsp gusp) = (Returned, s)"
    using monkey_patch_Returned [OF that] by (auto simp: module_load_def)
  then show ?thesis
    by (auto simp: restore_original_sitepackages_def)
qed

theorem restore_idempotent_witness:
  "site_getsitepackages (restore_original_sitepackages
      (snd (monkey_patch_sitepackages example_fs ''deps.txt'' ''/sandbox'' example_loaded)))
     = example_gsp
   \<and> site_getusersitepackages (restore_original_sitepackages (restore_original_sitepackages
      (snd (monkey_patch_sitepackages example_fs ''deps.txt'' ''/sandbox'' example_loaded))))
     = example_gusp"
proof -
  let ?s = "snd (monkey_patch_sitepackages example_fs ''deps.txt'' ''/sandbox'' example_loaded)"
  have h: "monkey_patch_sitepackages example_fs ''deps.txt'' ''/sandbox''
             (module_load example_gsp example_gusp) = (Returned, ?s)"
    by (simp add: example_deps_patched example_loaded_def)
  from restore_idempotent [of ?s example_fs "''deps.txt''" "''/sandbox''" example_gsp example_gusp]
  have "monkey_patch_sitepackages example_fs ''deps.txt'' ''/sandbox''
             (module_load example_gsp example_gusp) = (Returned, ?s) \<longrightarrow>
        site_getsitepackages (restore_original_sitepackages ?s) = example_gsp
      \<and> site_getusersitepackages (restore_original_sitepackages ?s) = example_gusp
      \<and> site_getsitepackages (restore_original_sitepackages (restore_original_sitepackages ?s))
          = example_gsp
      \<and> site_getusersitepackages (restore_original_sitepackages (restore_original_sitepackages ?s))
          = example_gusp"
    by (elim conjE)
  with h show ?thesis
    by blast
qed

subsection \<open>C7: the order of emission and restoration\<close>

text \<open>
  C7, as stated, fails: in the run where the checker reports an error with status 1, the
  write to the real standard error comes before the restoration, and no restoration
  comes before that write.
\<close>

theorem restore_before_emission_counterexample:
  "events (snd (example_run ''deps.txt'' checker_reports)) =
     [Checker_called, Stdout_write [newline],
      Stderr_write (''a.py:1: error: bad'' @ [newline] @ ''note'' @ [newline]),
      Restore_called]
   \<and> \<not> occurs_before Restore_called
        (Stderr_write (''a.py:1: error: bad'' @ [newline] @ ''note'' @ [newline]))
        (events (snd (example_run ''deps.txt'' checker_reports)))"
proof -
  have "result (checker_reports s [''a.py'']) = Raised (SystemExit (Code_int 1))" for s
    by (simp add: checker_reports_def)
  from main_script_SystemExit [where mypy_main = checker_reports and unknown = "[''a.py'']",
      OF example_run_patched this]
  show ?thesis
    by (simp add: example_run_def checker_reports_def)
qed

text \<open>
  C7, amended. When the override has been installed and the checker raises \<open>SystemExit\<close>,
  the events of the run are, in this order: the call of the checker, the newline on the
  real standard output, the captured text on the real standard error, the restoration.
  The emission precedes the restoration, which in turn precedes the exit of the process.
\<close>

theorem emission_before_restore:
  assumes "monkey_patch_sitepackages fs external_deps (get_runfiles_root test_srcdir cwd)
             (module_load gsp gusp) = (Returned, s1)"
    and "result (mypy_main s1 unknown) = Raised (SystemExit code)"
  shows "events (snd (main_script fs test_srcdir cwd external_deps unknown mypy_main gsp gusp)) =
           [Checker_called, Stdout_write [newline],
            Stderr_write (concat (map snd (writes (mypy_main s1 unknown))) @ [newline]),
            Restore_called]
     \<and> occurs_before
          (Stderr_write (concat (map snd (writes (mypy_main s1 unknown))) @ [newline]))
          Restore_called
          (events (snd (main_script fs test_srcdir cwd external_deps unknown mypy_main gsp gusp)))
     \<and> \<not> occurs_before Restore_called
          (Stderr_write (concat (map snd (writes (mypy_main s1 unknown))) @ [newline]))
          (events (snd (main_script fs test_srcdir cwd external_deps unknown mypy_main gsp gusp)))"
  using main_script_SystemExit [where mypy_main = mypy_main and unknown = unknown, OF assms]
  by simp

theorem emission_before_restore_witness:
  "occurs_before
     (Stderr_write (''a.py:1: error: bad'' @ [newline] @ ''note'' @ [newline]))
     Restore_called
     (events (snd (example_run ''deps.txt'' checker_reports)))"
proof -
  have "result (checker_reports s [''a.py'']) = Raised (SystemExit (Code_int 1))" for s
    by (simp add: checker_reports_def)
  from emission_before_restore [where mypy_main = checker_reports and unknown = "[''a.py'']",
      OF example_run_patched this]
  show ?thesis
    by (simp add: example_run_def checker_reports_def)
qed

subsection \<open>C8: a manifest entry that does not exist\<close>

text \<open>
  C8. If the manifest can be read and one of its entries, joined to the sandbox root,
  does not exist, \<open>monkey_patch_sitepackages\<close> raises \<open>AssertionError\<close> and leaves the
  state as it was; the script ends with that exception in the state of the freshly loaded
  module: the checker has not been called and \<open>site\<close> holds its original functions.
\<close>

theorem missing_path_aborts:
  assumes "read_text fs external_deps = Inr text"
    and "\<exists>p\<in>set (split_newline text).
           \<not> path_exists fs (os_path_join (get_runfiles_root test_srcdir cwd) p)"
  shows "monkey_patch_sitepackages fs external_deps (get_runfiles_root test_srcdir cwd) s
           = (Raised AssertionError, s)
     \<and> main_script fs test_srcdir cwd external_deps unknown mypy_main gsp gusp
           = (AssertionError, module_load gsp gusp)
     \<and> site_getsitepackages (module_load gsp gusp) = gsp
     \<and> site_getusersitepackages (module_load gsp gusp) = gusp
     \<and> Checker_called \<notin> set (events (module_load gsp gusp))"
proof -
  have "\<not> list_all (path_exists fs)
          (map (os_path_join (get_runfiles_root test_srcdir cwd)) (split_newline text))"
    using assms(2) by (auto simp: list_all_iff)
  then have "monkey_patch_sitepackages fs external_deps (get_runfiles_root test_srcdir cwd) s'
           = (Raised AssertionError, s')" for s'
    using assms(1) by (simp add: monkey_patch_sitepackages_def)
  then show ?thesis
    by (simp add: main_script_def module_load_def)
qed

theorem missing_path_aborts_witness:
  "example_run ''stale.txt'' checker_passes = (AssertionError, example_loaded)"
proof -
  have h1: "read_text example_fs ''stale.txt'' = Inr (''libs/foo'' @ [newline] @ ''libs/gone'')"
    by (simp add: example_fs_def)
  have h2: "\<exists>p\<in>set (split_newline (''libs/foo'' @ [newline] @ ''libs/gone'')).
           \<not> path_exists example_fs (os_path_join (get_runfiles_root (Some ''/sandbox'') ''/work'') p)"
    by (simp add: example_fs_def example_root os_path_join_def startswith_sep_def endswith_sep_def)
  from missing_path_aborts [OF h1 h2]
  show ?thesis
    by (simp add: example_run_def example_loaded_def)
qed

subsection \<open>C9: installing twice\<close>

text \<open>
  C9, as stated, fails: after two installations in a row the two module globals still
  hold the original functions, and one restoration puts back exactly what \<open>site\<close> held
  before the first installation.
\<close>

theorem second_install_counterexample:
  "original_getsitepackages example_installed_twice = original_getsitepackages example_loaded
   \<and> original_getusersitepackages example_installed_twice
       = original_getusersitepackages example_loaded
   \<and> site_getsitepackages example_installed_twice
       = Bazel_override_getsitepackages [''/sandbox/libs/baz'']
   \<and> site_getsitepackages (restore_original_sitepackages example_installed_twice)
       = site_getsitepackages example_loaded
   \<and> site_getusersitepackages (restore_original_sitepackages example_installed_twice)
       = site_getusersitepackages example_loaded"
  by (simp add: example_installed_twice_def example_deps_patched example_more_patched
      example_loaded_def module_load_def restore_original_sitepackages_def)

text \<open>
  C9, amended. A second installation before any restoration replaces the first
  override, but the captured originals are bound once, when the module is loaded, and
  no installation assigns them: after two installations they are unchanged, and a
  restoration puts back the functions \<open>site\<close> held when the module was loaded.
\<close>

theorem second_install_keeps_originals:
  assumes "monkey_patch_sitepackages fs path1 R1 (module_load gsp gusp) = (Returned, s1)"
    and "monkey_patch_sitepackages fs' path2 R2 s1 = (Returned, s2)"
  shows "original_getsitepackages s2 = gsp
     \<and> original_getusersitepackages s2 = gusp
     \<and> site_getsitepackages (restore_original_sitepackages s2)
         = site_getsitepackages (module_load gsp gusp)
     \<and> site_getusersitepackages (restore_original_sitepackages s2)
         = site_getusersitepackages (module_load gsp gusp)"
  using monkey_patch_Returned [OF assms(1)] monkey_patch_Returned [OF assms(2)]
  by (auto simp: module_load_def restore_original_sitepackages_def)

theorem second_install_keeps_originals_witness:
  "original_getsitepackages example_installed_twice = example_gsp
   \<and> site_getsitepackages (restore_original_sitepackages example_installed_twice) = example_gsp
   \<and> site_getusersitepackages (restore_original_sitepackages example_installed_twice) = example_gusp"
proof -
  let ?s1 = "snd (monkey_patch_sitepackages example_fs ''deps.txt'' ''/sandbox'' example_loaded)"
  have h1: "monkey_patch_sitepackages example_fs ''deps.txt'' ''/sandbox''
              (module_load example_gsp example_gusp) = (Returned, ?s1)"
    by (simp add: example_deps_patched example_loaded_def)
  have h2: "monkey_patch_sitepackages example_fs ''more.txt'' ''/sandbox'' ?s1
              = (Returned, example_installed_twice)"
    by (simp add: example_more_patched example_installed_twice_def)
  from second_install_keeps_originals [OF h1 h2]
  show ?thesis
    by (simp add: module_load_def)
qed

subsection \<open>C10: an unreadable manifest\<close>

text \<open>
  C10. If reading the manifest raises, the script ends with \<open>SystemExit(1)\<close>, and before
  that it has written exactly one line, to the real standard output: the words
  \<open>Unexpected error while reading dependency manifest file at\<close>, the manifest path
  between single quotes, a space, the text of the exception, a newline. Nothing has
  been written to the real standard error, the checker has not been called, and \<open>site\<close>
  holds the functions it held when the module was loaded.
\<close>

theorem unreadable_manifest_report:
  assumes "read_text fs external_deps = Inl e"
  shows "fst (main_script fs test_srcdir cwd external_deps unknown mypy_main gsp gusp)
           = SystemExit (Code_int 1)
     \<and> events (snd (main_script fs test_srcdir cwd external_deps unknown mypy_main gsp gusp))
           = [Stdout_write
                (''Unexpected error while reading dependency manifest file at '' @ [CHR 0x27]
                   @ external_deps @ [CHR 0x27] @ '' '' @ e @ [newline])]
     \<and> real_stdout (events (snd
          (main_script fs test_srcdir cwd external_deps unknown mypy_main gsp gusp)))
           = ''Unexpected error while reading dependency manifest file at '' @ [CHR 0x27]
               @ external_deps @ [CHR 0x27] @ '' '' @ e @ [newline]
     \<and> real_stderr (events (snd
          (main_script fs test_srcdir cwd external_deps unknown mypy_main gsp gusp))) = []
     \<and> site_getsitepackages (snd
          (main_script fs test_srcdir cwd external_deps unknown mypy_main gsp gusp)) = gsp
     \<and> site_getusersitepackages (snd
          (main_script fs test_srcdir cwd external_deps unknown mypy_main gsp gusp)) = gusp"
  using assms
  by (simp add: main_script_def monkey_patch_sitepackages_def print_stdout_def module_load_def
      manifest_error_message_def)

theorem unreadable_manifest_report_witness:
  "read_text example_fs ''missing.txt''
     = Inl (''[Errno 2] No such file or directory: '' @ [CHR 0x27] @ ''missing.txt'' @ [CHR 0x27])
   \<and> fst (example_run ''missing.txt'' checker_passes) = SystemExit (Code_int 1)
   \<and> real_stdout (events (snd (example_run ''missing.txt'' checker_passes)))
       = ''Unexpected error while reading dependency manifest file at '' @ [CHR 0x27]
           @ ''missing.txt'' @ [CHR 0x27] @ '' [Errno 2] No such file or directory: ''
           @ [CHR 0x27] @ ''missing.txt'' @ [CHR 0x27] @ [newline]
   \<and> real_stderr (events (snd (example_run ''missing.txt'' checker_passes))) = []"
proof -
  have h: "read_text example_fs ''missing.txt''
     = Inl (''[Errno 2] No such file or directory: '' @ [CHR 0x27] @ ''missing.txt'' @ [CHR 0x27])"
    by (simp add: example_fs_def)
  from unreadable_manifest_report [OF h]
  show ?thesis
    using h by (simp add: example_run_def)
qed

end
